theory Spec2Isabelle
  imports Main "HOL-Library.Word"
begin

section \<open>Strings of the runtime\<close>

text \<open>
  A JavaScript string is a sequence of UTF-16 code units. \<open>js\<close> writes a string
  literal of ASCII characters as such a sequence.
\<close>

type_synonym code_unit = "16 word"
type_synonym jsstring = "code_unit list"

definition js :: "string \<Rightarrow> jsstring" where
  "js s = map of_char s"

text \<open>
  \<open>String.prototype.trim\<close> removes the code units of the productions WhiteSpace and
  LineTerminator of ECMAScript from both ends of the string. All of them are single
  code units.
\<close>

definition isWhiteSpace :: "code_unit \<Rightarrow> bool" where
  "isWhiteSpace c =
     (c = 0x0009 \<or> c = 0x000A \<or> c = 0x000B \<or> c = 0x000C \<or> c = 0x000D \<or>
      c = 0x0020 \<or> c = 0x00A0 \<or> c = 0x1680 \<or>
      (0x2000 \<le> c \<and> c \<le> 0x200A) \<or>
      c = 0x2028 \<or> c = 0x2029 \<or> c = 0x202F \<or> c = 0x205F \<or>
      c = 0x3000 \<or> c = 0xFEFF)"

definition trim :: "jsstring \<Rightarrow> jsstring" where
  "trim s = rev (dropWhile isWhiteSpace (rev (dropWhile isWhiteSpace s)))"

text \<open>\<open>s.endsWith(t)\<close>: the last \<open>length t\<close> code units of \<open>s\<close> are \<open>t\<close>.\<close>

definition endsWith :: "jsstring \<Rightarrow> jsstring \<Rightarrow> bool" where
  "endsWith s t = (length t \<le> length s \<and> drop (length s - length t) s = t)"

text \<open>
  \<open>String.prototype.toLowerCase\<close> follows the Unicode case mappings, which are tables
  of the runtime and not part of the program. Every function below that lower-cases
  takes the mapping as its first argument, so each result holds for whatever mapping
  the runtime has. \<open>asciiLower\<close> is the mapping restricted to ASCII letters; it agrees
  with the runtime on every string of ASCII code units and is what the concrete
  examples run with.
\<close>

definition asciiLower :: "jsstring \<Rightarrow> jsstring" where
  "asciiLower s = map (\<lambda>c. if 0x41 \<le> c \<and> c \<le> 0x5A then c + 0x20 else c) s"

text \<open>
  The one fact about lower-casing that the verification workflow relies on: a string
  without white space at its ends has a lower-cased form without white space at its
  ends. (White-space code units have no case mapping and no letter maps to one.)
\<close>

definition lower_keeps_trimmed :: "(jsstring \<Rightarrow> jsstring) \<Rightarrow> bool" where
  "lower_keeps_trimmed toLowerCase = (\<forall>s. trim (toLowerCase (trim s)) = toLowerCase (trim s))"


section \<open>Domain records and the store\<close>

text \<open>
  \<open>DomainRecord\<close> as \<open>createDomainRecord\<close> builds it. The field \<open>id\<close> of the source is
  \<open>id'\<close> here. \<open>verified_at\<close> and \<open>lastScan\<close> are optional in the source; \<open>scanCount\<close> is
  read with \<open>?? 0\<close> in \<open>verifyDomainRecord\<close>, so it can be unset as well. A count is
  only stored and copied, never computed with.
\<close>

record DomainRecord =
  id' :: jsstring
  user_id :: jsstring
  domain_name :: jsstring
  isVerified :: bool
  verification_token :: jsstring
  created_at :: jsstring
  verified_at :: "jsstring option"
  scanCount :: "int option"
  lastScan :: "jsstring option"

text \<open>
  \<open>domainsStore.records\<close>: an array of record objects, newest first. The array is
  modelled by the list of its records' values; an assignment to a field of an object
  of the array is an update of the list at the object's position. (The array is taken
  to hold each object once.)
\<close>

type_synonym store = "DomainRecord list"

record DomainOptions =
  opt_verified :: "bool option"
  opt_scanCount :: "int option"
  opt_lastScan :: "jsstring option"

text \<open>
  \<open>uid()\<close> and \<open>nowIso()\<close> read the random generator and the clock. The values they
  return during a call are arguments \<open>uid\<close> and \<open>now\<close> of the model; each operation
  calls each of them at most once.
\<close>

definition createDomainRecord ::
  "jsstring \<Rightarrow> jsstring \<Rightarrow> jsstring \<Rightarrow> DomainOptions \<Rightarrow> DomainRecord" where
  "createDomainRecord uid now domainName options =
     (let verified = (case opt_verified options of None \<Rightarrow> False | Some v \<Rightarrow> v);
          count = (case opt_scanCount options of None \<Rightarrow> 0 | Some n \<Rightarrow> n);
          timestamp = now
      in \<lparr> id' = uid,
           user_id = js ''usr_123'',
           domain_name = domainName,
           isVerified = verified,
           verification_token = js ''HYOW-VERIFY-PLACEHOLDER-XXXXXX'',
           created_at = timestamp,
           verified_at = (if verified then Some timestamp else None),
           scanCount = Some count,
           lastScan = opt_lastScan options \<rparr>)"

text \<open>
  \<open>createInitialDomains\<close> calls \<open>uid()\<close> three times and \<open>nowIso()\<close> five times; \<open>uid k\<close>
  and \<open>nowIso k\<close> are what the call number \<open>k\<close> returns. An argument \<open>lastScan: nowIso()\<close>
  is evaluated before the body of \<open>createDomainRecord\<close> reads the clock.
\<close>

definition createInitialDomains :: "(nat \<Rightarrow> jsstring) \<Rightarrow> (nat \<Rightarrow> jsstring) \<Rightarrow> store" where
  "createInitialDomains uid nowIso =
     [ createDomainRecord (uid 0) (nowIso 1) (js ''example.com'')
         \<lparr> opt_verified = Some True, opt_scanCount = Some 5, opt_lastScan = Some (nowIso 0) \<rparr>,
       createDomainRecord (uid 1) (nowIso 3) (js ''test.dev'')
         \<lparr> opt_verified = Some True, opt_scanCount = Some 3, opt_lastScan = Some (nowIso 2) \<rparr>,
       createDomainRecord (uid 2) (nowIso 4) (js ''staging.myapp.io'')
         \<lparr> opt_verified = Some False, opt_scanCount = Some 0, opt_lastScan = None \<rparr> ]"

definition findDomainByName ::
  "(jsstring \<Rightarrow> jsstring) \<Rightarrow> store \<Rightarrow> jsstring \<Rightarrow> DomainRecord option" where
  "findDomainByName toLowerCase records domainName =
     find (\<lambda>domain. toLowerCase (domain_name domain) = trim (toLowerCase domainName)) records"

definition findDomainById :: "store \<Rightarrow> jsstring \<Rightarrow> DomainRecord option" where
  "findDomainById records domainId = find (\<lambda>domain. id' domain = domainId) records"

text \<open>\<open>Array.prototype.findIndex\<close>: the index of the first match, \<open>-1\<close> without one.\<close>

fun findIndex :: "('a \<Rightarrow> bool) \<Rightarrow> 'a list \<Rightarrow> int" where
  "findIndex P [] = - 1"
| "findIndex P (x # xs) =
     (if P x then 0 else (let i = findIndex P xs in if i < 0 then - 1 else i + 1))"

text \<open>
  The object that \<open>find\<close> returns is the array's own element. \<open>mutateFound P f\<close> is the
  array after the fields of the first element satisfying \<open>P\<close> were assigned as \<open>f\<close> says.
\<close>

fun mutateFound :: "('a \<Rightarrow> bool) \<Rightarrow> ('a \<Rightarrow> 'a) \<Rightarrow> 'a list \<Rightarrow> 'a list" where
  "mutateFound P f [] = []"
| "mutateFound P f (x # xs) = (if P x then f x # xs else x # mutateFound P f xs)"

definition upsertDomain :: "store \<Rightarrow> DomainRecord \<Rightarrow> store" where
  "upsertDomain records domain =
     (let existingIndex = findIndex (\<lambda>item. id' item = id' domain) records
      in if existingIndex \<ge> 0 then records[nat existingIndex := domain]
         else domain # records)"

text \<open>Each operation that returns a value returns it with the store it leaves.\<close>

definition verifyDomainRecord ::
  "(jsstring \<Rightarrow> jsstring) \<Rightarrow> jsstring \<Rightarrow> jsstring \<Rightarrow> store \<Rightarrow> jsstring
     \<Rightarrow> DomainRecord \<times> store" where
  "verifyDomainRecord toLowerCase uid now records domainName =
     (let normalized = toLowerCase (trim domainName);
          matches = (\<lambda>domain. toLowerCase (domain_name domain) = normalized);
          verify = (\<lambda>existing. existing
                      \<lparr> isVerified := True,
                        verified_at := Some now,
                        scanCount := Some (case scanCount existing of None \<Rightarrow> 0 | Some n \<Rightarrow> n) \<rparr>)
      in case find matches records of
           Some existing \<Rightarrow> (verify existing, mutateFound matches verify records)
         | None \<Rightarrow>
             (let verified = createDomainRecord uid now domainName
                   \<lparr> opt_verified = Some True, opt_scanCount = Some 0, opt_lastScan = None \<rparr>
              in (verified, verified # records)))"

definition updateDomainRecord ::
  "store \<Rightarrow> jsstring \<Rightarrow> jsstring option \<Rightarrow> DomainRecord option \<times> store" where
  "updateDomainRecord records domainId updates_domain_name =
     (case findDomainById records domainId of
        None \<Rightarrow> (None, records)
      | Some existing \<Rightarrow>
          (case updates_domain_name of
             Some name \<Rightarrow>
               (let rename = (\<lambda>r. r \<lparr> domain_name := name, isVerified := False,
                                      verified_at := None \<rparr>)
                in (Some (rename existing),
                    mutateFound (\<lambda>domain. id' domain = domainId) rename records))
           | None \<Rightarrow> (Some existing, records)))"

definition removeDomainRecord :: "store \<Rightarrow> jsstring \<Rightarrow> bool \<times> store" where
  "removeDomainRecord records domainId =
     (let index = findIndex (\<lambda>domain. id' domain = domainId) records
      in if index \<ge> 0 then (True, take (nat index) records @ drop (nat index + 1) records)
         else (False, records))"


section \<open>The verification workflow\<close>

text \<open>
  \<open>new ApiError(message, status, data)\<close>; \<open>data\<close> is always \<open>{ message }\<close> here. The four
  errors of \<open>verifyDomainMock\<close>, under the names of the error taxonomy.
\<close>

record ApiError =
  message :: jsstring
  status :: nat
  data_message :: jsstring

definition MissingDomain :: ApiError where
  "MissingDomain = \<lparr> message = js ''Domain is required.'', status = 400,
                     data_message = js ''Domain is required.'' \<rparr>"

definition InvalidToken :: ApiError where
  "InvalidToken = \<lparr> message = js ''Invalid verification token.'', status = 400,
                    data_message = js ''Invalid verification token.'' \<rparr>"

definition DnsVerificationFailed :: ApiError where
  "DnsVerificationFailed =
     \<lparr> message = js ''DNS verification failed. Check the TXT record and try again.'',
       status = 422,
       data_message = js ''DNS verification failed. Check the TXT record and try again.'' \<rparr>"

definition AlreadyVerified :: ApiError where
  "AlreadyVerified = \<lparr> message = js ''Domain is already verified.'', status = 409,
                       data_message = js ''Domain is already verified.'' \<rparr>"

text \<open>
  \<open>verifyDomainMock\<close>. \<open>DOMAIN_VERIFY_TOKEN\<close> is a constant of a module that is not
  among the sources, so it is an argument. \<open>domain\<close> is \<open>None\<close> for the \<open>undefined\<close>
  that \<open>domain?.trim() ?? ""\<close> guards against. A \<open>throw\<close> is the result \<open>Inl\<close>; the second
  component is the store when the call ends.
\<close>

definition verifyDomainMock ::
  "(jsstring \<Rightarrow> jsstring) \<Rightarrow> jsstring \<Rightarrow> jsstring \<Rightarrow> jsstring \<Rightarrow> store
     \<Rightarrow> jsstring option \<Rightarrow> jsstring \<Rightarrow> (ApiError + DomainRecord) \<times> store" where
  "verifyDomainMock toLowerCase DOMAIN_VERIFY_TOKEN uid now records domain token =
     (let normalized = (case domain of None \<Rightarrow> [] | Some d \<Rightarrow> trim d)
      in if normalized = [] then (Inl MissingDomain, records)
         else if token \<noteq> DOMAIN_VERIFY_TOKEN then (Inl InvalidToken, records)
         else if endsWith normalized (js ''.invalid'') then (Inl DnsVerificationFailed, records)
         else (let existing = findDomainByName toLowerCase records normalized
               in if (case existing of None \<Rightarrow> False | Some e \<Rightarrow> isVerified e)
                  then (Inl AlreadyVerified, records)
                  else (let (r, records') =
                              verifyDomainRecord toLowerCase uid now records normalized
                        in (Inr r, records'))))"

section \<open>A concrete store for the examples\<close>

text \<open>
  The initial store with identifiers \<open>dom_0\<close>, \<open>dom_1\<close>, \<open>dom_2\<close> and a clock that shows
  a later second at each reading. \<open>example.com\<close> and \<open>test.dev\<close> are verified,
  \<open>staging.myapp.io\<close> is not.
\<close>

definition demo_uid :: "nat \<Rightarrow> jsstring" where
  "demo_uid k = js ''dom_'' @ [0x30 + of_nat k]"

definition demo_now :: "nat \<Rightarrow> jsstring" where
  "demo_now k = js ''2024-01-01T00:00:0'' @ [0x30 + of_nat k] @ js ''.000Z''"

definition demo_store :: store where
  "demo_store = createInitialDomains demo_uid demo_now"

definition demo_token :: jsstring where
  "demo_token = js ''HYOW-VERIFY-PLACEHOLDER-XXXXXX''"

text \<open>
  Further stores reached from it: \<open>renamed_store\<close>, after the third record was renamed
  to its own name with a leading blank; \<open>shadowed_store\<close>, after the third record was
  renamed to \<open>test.dev\<close>, the name of the verified second record; and the store after
  \<open>upsertDomain\<close> of \<open>twin\<close>, a record with a new identifier and the name of the first
  record.
\<close>

definition renamed_store :: store where
  "renamed_store =
     snd (updateDomainRecord demo_store (js ''dom_2'') (Some (js '' staging.myapp.io'')))"

definition shadowed_store :: store where
  "shadowed_store =
     snd (updateDomainRecord demo_store (js ''dom_2'') (Some (js ''test.dev'')))"

definition twin :: DomainRecord where
  "twin = createDomainRecord (js ''dom_3'') (js ''2024-01-01T00:00:05.000Z'') (js ''example.com'')
            \<lparr> opt_verified = Some False, opt_scanCount = Some 0, opt_lastScan = None \<rparr>"


section \<open>Facts about the string and array primitives\<close>

lemma dropEnd_keeps_head:
  "xs = [] \<or> \<not> P (hd xs) \<Longrightarrow>
   rev (dropWhile P (rev xs)) = [] \<or> \<not> P (hd (rev (dropWhile P (rev xs))))"
proof (induction xs rule: rev_induct)
  case Nil
  then show ?case by simp
next
  case (snoc y ys)
  show ?case
  proof (cases "P y")
    case True
    with snoc.prems have "ys = [] \<or> \<not> P (hd ys)" by (cases ys) auto
    with snoc.IH True show ?thesis by simp
  next
    case False
    with snoc.prems show ?thesis by simp
  qed
qed

lemma trim_head: "trim s = [] \<or> \<not> isWhiteSpace (hd (trim s))"
  unfolding trim_def
  by (rule dropEnd_keeps_head) (metis hd_dropWhile)

lemma trim_last: "trim s = [] \<or> \<not> isWhiteSpace (last (trim s))"
  unfolding trim_def
  by (metis hd_dropWhile last_rev rev_is_Nil_conv)

lemma trim_fixed:
  "s = [] \<or> (\<not> isWhiteSpace (hd s) \<and> \<not> isWhiteSpace (last s)) \<Longrightarrow> trim s = s"
  unfolding trim_def
  by (metis dropWhile_eq_self_iff hd_rev rev_rev_ident rev_is_Nil_conv)

lemma trim_idem: "trim (trim s) = trim s"
  using trim_head[of s] trim_last[of s] by (intro trim_fixed) auto

lemma find_first:
  "i < length xs \<Longrightarrow> P (xs ! i) \<Longrightarrow> (\<forall>j<i. \<not> P (xs ! j)) \<Longrightarrow> find P xs = Some (xs ! i)"
  by (auto simp: find_Some_iff)

lemma mutateFound_first:
  "i < length xs \<Longrightarrow> P (xs ! i) \<Longrightarrow> (\<forall>j<i. \<not> P (xs ! j)) \<Longrightarrow>
   mutateFound P f xs = xs[i := f (xs ! i)]"
proof (induction xs arbitrary: i)
  case Nil
  then show ?case by simp
next
  case (Cons x xs)
  show ?case
  proof (cases i)
    case 0
    with Cons.prems show ?thesis by simp
  next
    case (Suc k)
    with Cons.prems have "\<not> P x" by auto
    moreover have "mutateFound P f xs = xs[k := f (xs ! k)]"
      using Cons.prems Suc by (intro Cons.IH) auto
    ultimately show ?thesis using Suc by simp
  qed
qed

lemma findIndex_first:
  "i < length xs \<Longrightarrow> P (xs ! i) \<Longrightarrow> (\<forall>j<i. \<not> P (xs ! j)) \<Longrightarrow> findIndex P xs = int i"
proof (induction xs arbitrary: i)
  case Nil
  then show ?case by simp
next
  case (Cons x xs)
  show ?case
  proof (cases i)
    case 0
    with Cons.prems show ?thesis by simp
  next
    case (Suc k)
    with Cons.prems have "\<not> P x" by auto
    moreover have "findIndex P xs = int k"
      using Cons.prems Suc by (intro Cons.IH) auto
    ultimately show ?thesis using Suc by (simp add: Let_def)
  qed
qed

lemma findIndex_none: "(\<forall>x\<in>set xs. \<not> P x) \<Longrightarrow> findIndex P xs = - 1"
  by (induction xs) (auto simp: Let_def)

text \<open>\<open>upsertDomain\<close> replaces the record of the same identifier and prepends otherwise.\<close>

lemma upsertDomain_fresh:
  "id' domain \<notin> id' ` set records \<Longrightarrow> upsertDomain records domain = domain # records"
proof -
  assume "id' domain \<notin> id' ` set records"
  then have "findIndex (\<lambda>item. id' item = id' domain) records = - 1"
    by (intro findIndex_none) (metis imageI)
  then show ?thesis by (simp add: upsertDomain_def)
qed

lemma upsertDomain_replaces:
  assumes "i < length records" and "id' (records ! i) = id' domain"
    and "\<forall>j<i. id' (records ! j) \<noteq> id' domain"
  shows "upsertDomain records domain = records[i := domain]"
proof -
  from assms have "findIndex (\<lambda>item. id' item = id' domain) records = int i"
    by (intro findIndex_first) auto
  then show ?thesis by (simp add: upsertDomain_def)
qed

text \<open>\<open>asciiLower\<close> has the property assumed of the runtime's lower-casing.\<close>

lemma upper_plus:
  fixes c :: code_unit
  assumes "0x41 \<le> c" "c \<le> 0x5A"
  shows "unat (c + 0x20) = unat c + 0x20" "0x41 \<le> unat c" "unat c \<le> 0x5A"
proof -
  show "0x41 \<le> unat c" using assms(1) by (simp add: word_le_nat_alt)
  show b: "unat c \<le> 0x5A" using assms(2) by (simp add: word_le_nat_alt)
  show "unat (c + 0x20) = unat c + 0x20" using b by (simp add: unat_word_ariths)
qed

lemma isWhiteSpace_unat:
  "isWhiteSpace c =
     (unat c \<in> {0x9, 0xA, 0xB, 0xC, 0xD, 0x20, 0xA0, 0x1680, 0x2028, 0x2029, 0x202F,
                 0x205F, 0x3000, 0xFEFF}
      \<or> (0x2000 \<le> unat c \<and> unat c \<le> 0x200A))"
  unfolding isWhiteSpace_def
  by (simp add: word_le_nat_alt word_unat_eq_iff) blast

lemma isWhiteSpace_lower:
  "isWhiteSpace (if 0x41 \<le> c \<and> c \<le> 0x5A then c + 0x20 else c) = isWhiteSpace c"
proof (cases "0x41 \<le> c \<and> c \<le> 0x5A")
  case True
  then show ?thesis using upper_plus[of c] by (simp add: isWhiteSpace_unat)
next
  case False
  then show ?thesis by auto
qed

lemma trim_asciiLower: "trim (asciiLower s) = asciiLower (trim s)"
  unfolding trim_def asciiLower_def
  by (simp add: dropWhile_map rev_map comp_def isWhiteSpace_lower)

lemma asciiLower_keeps_trimmed: "lower_keeps_trimmed asciiLower"
  unfolding lower_keeps_trimmed_def by (simp add: trim_asciiLower trim_idem)

text \<open>The records of a call and of the concrete store, written out.\<close>

lemma createDomainRecord_eq:
  "createDomainRecord uid now domainName options =
     \<lparr> id' = uid, user_id = js ''usr_123'', domain_name = domainName,
       isVerified = (case opt_verified options of None \<Rightarrow> False | Some v \<Rightarrow> v),
       verification_token = js ''HYOW-VERIFY-PLACEHOLDER-XXXXXX'',
       created_at = now,
       verified_at = (if (case opt_verified options of None \<Rightarrow> False | Some v \<Rightarrow> v) then Some now else None),
       scanCount = Some (case opt_scanCount options of None \<Rightarrow> 0 | Some n \<Rightarrow> n),
       lastScan = opt_lastScan options \<rparr>"
  by (simp add: createDomainRecord_def Let_def)

lemma demo_store_eq:
  "demo_store =
     [ \<lparr> id' = js ''dom_0'', user_id = js ''usr_123'', domain_name = js ''example.com'',
         isVerified = True, verification_token = js ''HYOW-VERIFY-PLACEHOLDER-XXXXXX'',
         created_at = js ''2024-01-01T00:00:01.000Z'',
         verified_at = Some (js ''2024-01-01T00:00:01.000Z''),
         scanCount = Some 5, lastScan = Some (js ''2024-01-01T00:00:00.000Z'') \<rparr>,
       \<lparr> id' = js ''dom_1'', user_id = js ''usr_123'', domain_name = js ''test.dev'',
         isVerified = True, verification_token = js ''HYOW-VERIFY-PLACEHOLDER-XXXXXX'',
         created_at = js ''2024-01-01T00:00:03.000Z'',
         verified_at = Some (js ''2024-01-01T00:00:03.000Z''),
         scanCount = Some 3, lastScan = Some (js ''2024-01-01T00:00:02.000Z'') \<rparr>,
       \<lparr> id' = js ''dom_2'', user_id = js ''usr_123'', domain_name = js ''staging.myapp.io'',
         isVerified = False, verification_token = js ''HYOW-VERIFY-PLACEHOLDER-XXXXXX'',
         created_at = js ''2024-01-01T00:00:04.000Z'',
         verified_at = None,
         scanCount = Some 0, lastScan = None \<rparr> ]"
  by (simp add: demo_store_def createInitialDomains_def createDomainRecord_eq demo_uid_def demo_now_def js_def)

lemmas string_eval = js_def trim_def isWhiteSpace_def asciiLower_def endsWith_def

lemma renamed_store_eq:
  "renamed_store = demo_store[2 := (demo_store ! 2)\<lparr>domain_name := js '' staging.myapp.io''\<rparr>]"
  by (simp add: renamed_store_def updateDomainRecord_def findDomainById_def demo_store_eq js_def)

lemma shadowed_store_eq:
  "shadowed_store = demo_store[2 := (demo_store ! 2)\<lparr>domain_name := js ''test.dev''\<rparr>]"
  by (simp add: shadowed_store_def updateDomainRecord_def findDomainById_def demo_store_eq js_def)

text \<open>
  On a trimmed name the lookup of \<open>findDomainByName\<close> and the one inside
  \<open>verifyDomainRecord\<close> test the same condition.
\<close>

lemma lookups_agree:
  assumes "lower_keeps_trimmed toLowerCase"
  shows "findDomainByName toLowerCase records (trim d)
           = find (\<lambda>domain. toLowerCase (domain_name domain) = toLowerCase (trim (trim d))) records"
proof -
  from assms have "trim (toLowerCase (trim d)) = toLowerCase (trim d)"
    by (simp add: lower_keeps_trimmed_def)
  then show ?thesis
    by (simp add: findDomainByName_def trim_idem)
qed


section \<open>Lookup by name\<close>

text \<open>
  C1, as the code has it: \<open>findDomainByName\<close> returns the first record, in the order of
  the store, whose lower-cased stored name equals the lower-cased query with white space
  trimmed from both ends of the query. The stored name is lower-cased and not trimmed.
  The result is \<open>undefined\<close> exactly when no record of the store satisfies this.
\<close>

theorem findDomainByName_first_match:
  "(findDomainByName toLowerCase records query = Some r \<longleftrightarrow>
      (\<exists>i<length records. records ! i = r
          \<and> toLowerCase (domain_name r) = trim (toLowerCase query)
          \<and> (\<forall>j<i. toLowerCase (domain_name (records ! j)) \<noteq> trim (toLowerCase query))))
   \<and> (findDomainByName toLowerCase records query = None \<longleftrightarrow>
      (\<forall>d\<in>set records. toLowerCase (domain_name d) \<noteq> trim (toLowerCase query)))"
  unfolding findDomainByName_def
  by (auto simp: find_Some_iff find_None_iff)

theorem findDomainByName_first_match_witness:
  "findDomainByName asciiLower demo_store (js ''  Test.DEV '') = Some (demo_store ! 1)
   \<and> asciiLower (domain_name (demo_store ! 1)) = trim (asciiLower (js ''  Test.DEV ''))
   \<and> asciiLower (domain_name (demo_store ! 0)) \<noteq> trim (asciiLower (js ''  Test.DEV ''))
   \<and> findDomainByName asciiLower demo_store (js ''test.de'') = None"
  using findDomainByName_first_match [of asciiLower demo_store "js ''  Test.DEV ''" "demo_store ! 1"]
    findDomainByName_first_match [of asciiLower demo_store "js ''test.de''" "demo_store ! 1"]
  by (simp add: findDomainByName_def demo_store_eq string_eval)


text \<open>
  C1 with both sides trimmed does not hold: the stored side of the comparison is not
  trimmed. In \<open>renamed_store\<close> the third record is named \<open>staging.myapp.io\<close> with a
  leading blank. Its name and the query \<open>staging.myapp.io\<close> are equal after lower-casing
  and trimming both, and the lookup returns no record.
\<close>

theorem findDomainByName_untrimmed_stored_name_counterexample:
  "renamed_store ! 2 \<in> set renamed_store
   \<and> domain_name (renamed_store ! 2) = js '' staging.myapp.io''
   \<and> trim (asciiLower (domain_name (renamed_store ! 2)))
       = trim (asciiLower (js ''staging.myapp.io''))
   \<and> findDomainByName asciiLower renamed_store (js ''staging.myapp.io'') = None
   \<and> \<not> (findDomainByName asciiLower renamed_store (js ''staging.myapp.io'')
            = Some (renamed_store ! 2)
          \<longleftrightarrow> trim (asciiLower (domain_name (renamed_store ! 2)))
                = trim (asciiLower (js ''staging.myapp.io'')))"
proof -
  have stored: "domain_name (renamed_store ! 2) = js '' staging.myapp.io''"
    "renamed_store ! 2 \<in> set renamed_store"
    by (simp_all add: renamed_store_eq demo_store_eq)
  have equal: "trim (asciiLower (js '' staging.myapp.io''))
                 = trim (asciiLower (js ''staging.myapp.io''))"
    by (simp add: string_eval)
  have missed: "findDomainByName asciiLower renamed_store (js ''staging.myapp.io'') = None"
    by (simp add: findDomainByName_def renamed_store_eq demo_store_eq string_eval)
  show ?thesis
    using stored equal missed by simp
qed


section \<open>Successful verification\<close>

text \<open>
  C2, as the code has it: a call of \<open>verifyDomainMock\<close> with a non-empty trimmed name,
  the expected token and no sentinel suffix, for a name that \<open>findDomainByName\<close> does not
  find, creates one record with \<open>isVerified = true\<close> and \<open>verified_at\<close> set to the time of
  the call, puts it in front of the unchanged earlier records and returns it. When
  \<open>findDomainByName\<close> finds a record, which is the first one of that name, and that record
  is not verified, it is updated where it stands and returned, and no record is created.
  (Here the runtime's lower-casing is assumed to keep trimmed strings trimmed.)
\<close>

theorem verifyDomainMock_verifies:
  assumes "lower_keeps_trimmed toLowerCase"
    and "trim d \<noteq> []"
    and "\<not> endsWith (trim d) (js ''.invalid'')"
  shows "(findDomainByName toLowerCase records (trim d) = None \<longrightarrow>
            verifyDomainMock toLowerCase DOMAIN_VERIFY_TOKEN uid now records (Some d)
              DOMAIN_VERIFY_TOKEN
            = (Inr \<lparr> id' = uid, user_id = js ''usr_123'', domain_name = trim d,
                     isVerified = True,
                     verification_token = js ''HYOW-VERIFY-PLACEHOLDER-XXXXXX'',
                     created_at = now, verified_at = Some now,
                     scanCount = Some 0, lastScan = None \<rparr>,
               \<lparr> id' = uid, user_id = js ''usr_123'', domain_name = trim d,
                 isVerified = True,
                 verification_token = js ''HYOW-VERIFY-PLACEHOLDER-XXXXXX'',
                 created_at = now, verified_at = Some now,
                 scanCount = Some 0, lastScan = None \<rparr> # records))
       \<and> (\<forall>existing. findDomainByName toLowerCase records (trim d) = Some existing
                     \<and> \<not> isVerified existing \<longrightarrow>
            (\<exists>i<length records. records ! i = existing
               \<and> (\<forall>j<i. toLowerCase (domain_name (records ! j)) \<noteq> trim (toLowerCase (trim d)))
               \<and> verifyDomainMock toLowerCase DOMAIN_VERIFY_TOKEN uid now records (Some d)
                    DOMAIN_VERIFY_TOKEN
                  = (Inr (existing \<lparr> isVerified := True, verified_at := Some now,
                             scanCount := Some (case scanCount existing of None \<Rightarrow> 0 | Some n \<Rightarrow> n) \<rparr>),
                     records[i := existing \<lparr> isVerified := True, verified_at := Some now,
                             scanCount := Some (case scanCount existing of None \<Rightarrow> 0 | Some n \<Rightarrow> n) \<rparr>])))"
proof (intro conjI impI allI)
  assume none: "findDomainByName toLowerCase records (trim d) = None"
  then have "find (\<lambda>domain. toLowerCase (domain_name domain) = toLowerCase (trim (trim d))) records = None"
    using lookups_agree [OF assms(1)] by simp
  then have "verifyDomainRecord toLowerCase uid now records (trim d)
      = (\<lparr> id' = uid, user_id = js ''usr_123'', domain_name = trim d,
                     isVerified = True,
                     verification_token = js ''HYOW-VERIFY-PLACEHOLDER-XXXXXX'',
                     created_at = now, verified_at = Some now,
                     scanCount = Some 0, lastScan = None \<rparr>,
         \<lparr> id' = uid, user_id = js ''usr_123'', domain_name = trim d,
                     isVerified = True,
                     verification_token = js ''HYOW-VERIFY-PLACEHOLDER-XXXXXX'',
                     created_at = now, verified_at = Some now,
                     scanCount = Some 0, lastScan = None \<rparr> # records)"
    by (simp add: verifyDomainRecord_def createDomainRecord_eq Let_def)
  with none assms(2,3) show "verifyDomainMock toLowerCase DOMAIN_VERIFY_TOKEN uid now records (Some d)
              DOMAIN_VERIFY_TOKEN
            = (Inr \<lparr> id' = uid, user_id = js ''usr_123'', domain_name = trim d,
                     isVerified = True,
                     verification_token = js ''HYOW-VERIFY-PLACEHOLDER-XXXXXX'',
                     created_at = now, verified_at = Some now,
                     scanCount = Some 0, lastScan = None \<rparr>,
               \<lparr> id' = uid, user_id = js ''usr_123'', domain_name = trim d,
                 isVerified = True,
                 verification_token = js ''HYOW-VERIFY-PLACEHOLDER-XXXXXX'',
                 created_at = now, verified_at = Some now,
                 scanCount = Some 0, lastScan = None \<rparr> # records)"
    by (simp add: verifyDomainMock_def Let_def)
next
  fix existing
  assume a: "findDomainByName toLowerCase records (trim d) = Some existing \<and> \<not> isVerified existing"
  let ?Q = "\<lambda>domain. toLowerCase (domain_name domain) = trim (toLowerCase (trim d))"
  let ?P = "\<lambda>domain. toLowerCase (domain_name domain) = toLowerCase (trim (trim d))"
  let ?verify = "\<lambda>existing. existing
                      \<lparr> isVerified := True, verified_at := Some now,
                        scanCount := Some (case scanCount existing of None \<Rightarrow> 0 | Some n \<Rightarrow> n) \<rparr>"
  have eq: "trim (toLowerCase (trim d)) = toLowerCase (trim (trim d))"
    using assms(1) by (simp add: lower_keeps_trimmed_def trim_idem)
  from a have "find ?Q records = Some existing"
    by (simp add: findDomainByName_def)
  then have found: "find ?P records = Some existing"
    by (simp add: eq)
  then obtain i where i: "i < length records" "?P (records ! i)" "existing = records ! i"
      "\<forall>j<i. \<not> ?P (records ! j)"
    by (auto simp: find_Some_iff)
  have "mutateFound ?P ?verify records = records[i := ?verify (records ! i)]"
    using i by (intro mutateFound_first) auto
  with found i(3) have "verifyDomainRecord toLowerCase uid now records (trim d)
      = (?verify existing, records[i := ?verify existing])"
    by (simp add: verifyDomainRecord_def)
  with a assms(2,3) have "verifyDomainMock toLowerCase DOMAIN_VERIFY_TOKEN uid now records (Some d)
                    DOMAIN_VERIFY_TOKEN = (Inr (?verify existing), records[i := ?verify existing])"
    by (simp add: verifyDomainMock_def Let_def)
  with i eq show "\<exists>i<length records. records ! i = existing
               \<and> (\<forall>j<i. toLowerCase (domain_name (records ! j)) \<noteq> trim (toLowerCase (trim d)))
               \<and> verifyDomainMock toLowerCase DOMAIN_VERIFY_TOKEN uid now records (Some d)
                    DOMAIN_VERIFY_TOKEN
                  = (Inr (existing \<lparr> isVerified := True, verified_at := Some now,
                             scanCount := Some (case scanCount existing of None \<Rightarrow> 0 | Some n \<Rightarrow> n) \<rparr>),
                     records[i := existing \<lparr> isVerified := True, verified_at := Some now,
                             scanCount := Some (case scanCount existing of None \<Rightarrow> 0 | Some n \<Rightarrow> n) \<rparr>])"
    by auto
qed

theorem verifyDomainMock_verifies_witness:
  "lower_keeps_trimmed asciiLower
   \<and> trim (js '' New-Site.org '') \<noteq> []
   \<and> \<not> endsWith (trim (js '' New-Site.org '')) (js ''.invalid'')
   \<and> findDomainByName asciiLower demo_store (trim (js '' New-Site.org '')) = None
   \<and> verifyDomainMock asciiLower demo_token (js ''dom_3'') (js ''2024-01-01T00:00:05.000Z'')
         demo_store (Some (js '' New-Site.org '')) demo_token
       = (Inr \<lparr> id' = js ''dom_3'', user_id = js ''usr_123'', domain_name = js ''New-Site.org'',
                isVerified = True,
                verification_token = js ''HYOW-VERIFY-PLACEHOLDER-XXXXXX'',
                created_at = js ''2024-01-01T00:00:05.000Z'',
                verified_at = Some (js ''2024-01-01T00:00:05.000Z''),
                scanCount = Some 0, lastScan = None \<rparr>,
          \<lparr> id' = js ''dom_3'', user_id = js ''usr_123'', domain_name = js ''New-Site.org'',
            isVerified = True,
            verification_token = js ''HYOW-VERIFY-PLACEHOLDER-XXXXXX'',
            created_at = js ''2024-01-01T00:00:05.000Z'',
            verified_at = Some (js ''2024-01-01T00:00:05.000Z''),
            scanCount = Some 0, lastScan = None \<rparr> # demo_store)
   \<and> trim (js ''Staging.MyApp.IO'') \<noteq> []
   \<and> \<not> endsWith (trim (js ''Staging.MyApp.IO'')) (js ''.invalid'')
   \<and> findDomainByName asciiLower demo_store (trim (js ''Staging.MyApp.IO'')) = Some (demo_store ! 2)
   \<and> \<not> isVerified (demo_store ! 2)
   \<and> verifyDomainMock asciiLower demo_token (js ''dom_3'') (js ''2024-01-01T00:00:05.000Z'')
         demo_store (Some (js ''Staging.MyApp.IO'')) demo_token
       = (Inr ((demo_store ! 2) \<lparr> isVerified := True,
                  verified_at := Some (js ''2024-01-01T00:00:05.000Z''), scanCount := Some 0 \<rparr>),
          demo_store[2 := (demo_store ! 2) \<lparr> isVerified := True,
                  verified_at := Some (js ''2024-01-01T00:00:05.000Z''), scanCount := Some 0 \<rparr>])"
proof -
  note lower = asciiLower_keeps_trimmed
  have fresh_name: "trim (js '' New-Site.org '') = js ''New-Site.org''"
    by (simp add: string_eval)
  have fresh: "trim (js '' New-Site.org '') \<noteq> []"
    "\<not> endsWith (trim (js '' New-Site.org '')) (js ''.invalid'')"
    by (simp_all add: string_eval)
  have unknown: "findDomainByName asciiLower demo_store (trim (js '' New-Site.org '')) = None"
    by (simp add: findDomainByName_def demo_store_eq string_eval)
  have pending: "trim (js ''Staging.MyApp.IO'') \<noteq> []"
    "\<not> endsWith (trim (js ''Staging.MyApp.IO'')) (js ''.invalid'')"
    by (simp_all add: string_eval)
  have known: "findDomainByName asciiLower demo_store (trim (js ''Staging.MyApp.IO'')) = Some (demo_store ! 2)"
    by (simp add: findDomainByName_def demo_store_eq string_eval)
  have unverified: "\<not> isVerified (demo_store ! 2)" "scanCount (demo_store ! 2) = Some 0"
    by (simp_all add: demo_store_eq)
  have position: "\<And>i. i < length demo_store \<Longrightarrow> demo_store ! i = demo_store ! 2 \<Longrightarrow> i = 2"
  proof -
    fix i assume "i < length demo_store" and same: "demo_store ! i = demo_store ! 2"
    then have "i = 0 \<or> i = 1 \<or> i = 2" by (auto simp: demo_store_eq)
    with same show "i = 2" by (auto simp: demo_store_eq js_def)
  qed
  have created: "verifyDomainMock asciiLower demo_token (js ''dom_3'') (js ''2024-01-01T00:00:05.000Z'')
         demo_store (Some (js '' New-Site.org '')) demo_token
       = (Inr \<lparr> id' = js ''dom_3'', user_id = js ''usr_123'', domain_name = js ''New-Site.org'',
                isVerified = True,
                verification_token = js ''HYOW-VERIFY-PLACEHOLDER-XXXXXX'',
                created_at = js ''2024-01-01T00:00:05.000Z'',
                verified_at = Some (js ''2024-01-01T00:00:05.000Z''),
                scanCount = Some 0, lastScan = None \<rparr>,
          \<lparr> id' = js ''dom_3'', user_id = js ''usr_123'', domain_name = js ''New-Site.org'',
            isVerified = True,
            verification_token = js ''HYOW-VERIFY-PLACEHOLDER-XXXXXX'',
            created_at = js ''2024-01-01T00:00:05.000Z'',
            verified_at = Some (js ''2024-01-01T00:00:05.000Z''),
            scanCount = Some 0, lastScan = None \<rparr> # demo_store)"
    using verifyDomainMock_verifies [OF lower fresh, of demo_store demo_token "js ''dom_3''"
        "js ''2024-01-01T00:00:05.000Z''"] unknown
    unfolding fresh_name by blast
  from verifyDomainMock_verifies [OF lower pending, of demo_store demo_token "js ''dom_3''"
        "js ''2024-01-01T00:00:05.000Z''"] known unverified(1)
  obtain i where i: "i < length demo_store" "demo_store ! i = demo_store ! 2"
    "verifyDomainMock asciiLower demo_token (js ''dom_3'') (js ''2024-01-01T00:00:05.000Z'')
         demo_store (Some (js ''Staging.MyApp.IO'')) demo_token
       = (Inr ((demo_store ! 2) \<lparr> isVerified := True,
                  verified_at := Some (js ''2024-01-01T00:00:05.000Z''),
                  scanCount := Some (case scanCount (demo_store ! 2) of None \<Rightarrow> 0 | Some n \<Rightarrow> n) \<rparr>),
          demo_store[i := (demo_store ! 2) \<lparr> isVerified := True,
                  verified_at := Some (js ''2024-01-01T00:00:05.000Z''),
                  scanCount := Some (case scanCount (demo_store ! 2) of None \<Rightarrow> 0 | Some n \<Rightarrow> n) \<rparr>])"
    by blast
  from position [OF i(1,2)] i(3) unverified(2)
  have updated: "verifyDomainMock asciiLower demo_token (js ''dom_3'') (js ''2024-01-01T00:00:05.000Z'')
         demo_store (Some (js ''Staging.MyApp.IO'')) demo_token
       = (Inr ((demo_store ! 2) \<lparr> isVerified := True,
                  verified_at := Some (js ''2024-01-01T00:00:05.000Z''), scanCount := Some 0 \<rparr>),
          demo_store[2 := (demo_store ! 2) \<lparr> isVerified := True,
                  verified_at := Some (js ''2024-01-01T00:00:05.000Z''), scanCount := Some 0 \<rparr>])"
    by simp
  show ?thesis
    using lower fresh unknown created pending known unverified(1) updated by blast
qed


text \<open>
  C2 for any matching record that is not verified does not hold: only the record that
  \<open>findDomainByName\<close> returns counts. In \<open>shadowed_store\<close> the third record is named
  \<open>test.dev\<close> and is not verified, and the lookup returns the verified second record of
  the same name: the call throws AlreadyVerified and the third record stays as it is. In
  \<open>renamed_store\<close> the third record is not verified and its name equals
  \<open>staging.myapp.io\<close> after lower-casing and trimming both; the lookup compares the
  untrimmed stored name, finds nothing, and the call puts a second record in front.
\<close>

theorem verifyDomainMock_first_match_only_counterexample:
  "shadowed_store ! 2 \<in> set shadowed_store
   \<and> \<not> isVerified (shadowed_store ! 2)
   \<and> asciiLower (domain_name (shadowed_store ! 2)) = trim (asciiLower (trim (js ''test.dev'')))
   \<and> trim (js ''test.dev'') \<noteq> []
   \<and> \<not> endsWith (trim (js ''test.dev'')) (js ''.invalid'')
   \<and> verifyDomainMock asciiLower demo_token (js ''dom_3'') (js ''2024-01-01T00:00:05.000Z'')
         shadowed_store (Some (js ''test.dev'')) demo_token
       = (Inl AlreadyVerified, shadowed_store)
   \<and> renamed_store ! 2 \<in> set renamed_store
   \<and> \<not> isVerified (renamed_store ! 2)
   \<and> trim (asciiLower (domain_name (renamed_store ! 2)))
       = trim (asciiLower (trim (js ''staging.myapp.io'')))
   \<and> trim (js ''staging.myapp.io'') \<noteq> []
   \<and> \<not> endsWith (trim (js ''staging.myapp.io'')) (js ''.invalid'')
   \<and> verifyDomainMock asciiLower demo_token (js ''dom_3'') (js ''2024-01-01T00:00:05.000Z'')
         renamed_store (Some (js ''staging.myapp.io'')) demo_token
       = (Inr \<lparr> id' = js ''dom_3'', user_id = js ''usr_123'',
                domain_name = js ''staging.myapp.io'', isVerified = True,
                verification_token = js ''HYOW-VERIFY-PLACEHOLDER-XXXXXX'',
                created_at = js ''2024-01-01T00:00:05.000Z'',
                verified_at = Some (js ''2024-01-01T00:00:05.000Z''),
                scanCount = Some 0, lastScan = None \<rparr>,
          \<lparr> id' = js ''dom_3'', user_id = js ''usr_123'',
            domain_name = js ''staging.myapp.io'', isVerified = True,
            verification_token = js ''HYOW-VERIFY-PLACEHOLDER-XXXXXX'',
            created_at = js ''2024-01-01T00:00:05.000Z'',
            verified_at = Some (js ''2024-01-01T00:00:05.000Z''),
            scanCount = Some 0, lastScan = None \<rparr> # renamed_store)"
proof -
  have shadowed: "shadowed_store ! 2 \<in> set shadowed_store" "\<not> isVerified (shadowed_store ! 2)"
    "asciiLower (domain_name (shadowed_store ! 2)) = trim (asciiLower (trim (js ''test.dev'')))"
    by (simp_all add: shadowed_store_eq demo_store_eq string_eval)
  have name1: "trim (js ''test.dev'') \<noteq> []" "\<not> endsWith (trim (js ''test.dev'')) (js ''.invalid'')"
    by (simp_all add: string_eval)
  have first: "findDomainByName asciiLower shadowed_store (trim (js ''test.dev''))
                 = Some (shadowed_store ! 1)" "isVerified (shadowed_store ! 1)"
    by (simp_all add: findDomainByName_def shadowed_store_eq demo_store_eq string_eval)
  have thrown: "verifyDomainMock asciiLower demo_token (js ''dom_3'') (js ''2024-01-01T00:00:05.000Z'')
         shadowed_store (Some (js ''test.dev'')) demo_token
       = (Inl AlreadyVerified, shadowed_store)"
    using name1 first by (simp add: verifyDomainMock_def)
  have padded: "renamed_store ! 2 \<in> set renamed_store" "\<not> isVerified (renamed_store ! 2)"
    "trim (asciiLower (domain_name (renamed_store ! 2)))
       = trim (asciiLower (trim (js ''staging.myapp.io'')))"
    by (simp_all add: renamed_store_eq demo_store_eq string_eval)
  have name2: "trim (js ''staging.myapp.io'') = js ''staging.myapp.io''"
    "js ''staging.myapp.io'' \<noteq> []"
    "\<not> endsWith (js ''staging.myapp.io'') (js ''.invalid'')"
    by (simp_all add: string_eval)
  have missed: "findDomainByName asciiLower renamed_store (js ''staging.myapp.io'') = None"
    by (simp add: findDomainByName_def renamed_store_eq demo_store_eq string_eval)
  have unmatched: "find (\<lambda>domain. asciiLower (domain_name domain)
                       = asciiLower (trim (js ''staging.myapp.io''))) renamed_store = None"
    by (simp add: renamed_store_eq demo_store_eq string_eval)
  have created: "verifyDomainMock asciiLower demo_token (js ''dom_3'') (js ''2024-01-01T00:00:05.000Z'')
         renamed_store (Some (js ''staging.myapp.io'')) demo_token
       = (Inr \<lparr> id' = js ''dom_3'', user_id = js ''usr_123'',
                domain_name = js ''staging.myapp.io'', isVerified = True,
                verification_token = js ''HYOW-VERIFY-PLACEHOLDER-XXXXXX'',
                created_at = js ''2024-01-01T00:00:05.000Z'',
                verified_at = Some (js ''2024-01-01T00:00:05.000Z''),
                scanCount = Some 0, lastScan = None \<rparr>,
          \<lparr> id' = js ''dom_3'', user_id = js ''usr_123'',
            domain_name = js ''staging.myapp.io'', isVerified = True,
            verification_token = js ''HYOW-VERIFY-PLACEHOLDER-XXXXXX'',
            created_at = js ''2024-01-01T00:00:05.000Z'',
            verified_at = Some (js ''2024-01-01T00:00:05.000Z''),
            scanCount = Some 0, lastScan = None \<rparr> # renamed_store)"
    using name2 missed unmatched
    by (simp add: verifyDomainMock_def verifyDomainRecord_def createDomainRecord_eq Let_def)
  show ?thesis
    using shadowed name1 thrown padded name2 created by simp
qed


section \<open>The error branches of the verification workflow\<close>

text \<open>
  C3: a call of \<open>verifyDomainMock\<close> whose domain name is empty after trimming (or is
  absent) fails with the MissingDomain error, status 400, whatever the token is; a wrong
  token does not turn the error into InvalidToken.
\<close>

theorem verifyDomainMock_MissingDomain:
  assumes "(case domain of None \<Rightarrow> [] | Some d \<Rightarrow> trim d) = []"
  shows "verifyDomainMock toLowerCase DOMAIN_VERIFY_TOKEN uid now records domain token
           = (Inl MissingDomain, records)
         \<and> status MissingDomain = 400"
  using assms by (simp add: verifyDomainMock_def MissingDomain_def)

theorem verifyDomainMock_MissingDomain_witness:
  "trim (js ''   '') = [] \<and> js ''wrong'' \<noteq> demo_token
   \<and> verifyDomainMock asciiLower demo_token (demo_uid 3) (demo_now 5) demo_store
        (Some (js ''   '')) (js ''wrong'') = (Inl MissingDomain, demo_store)
   \<and> verifyDomainMock asciiLower demo_token (demo_uid 3) (demo_now 5) demo_store
        None demo_token = (Inl MissingDomain, demo_store)
   \<and> status MissingDomain = 400"
proof -
  have blank: "trim (js ''   '') = []"
    by (simp add: trim_def js_def isWhiteSpace_def)
  have h: "(case Some (js ''   '') of None \<Rightarrow> [] | Some d \<Rightarrow> trim d) = []"
    using blank by simp
  have h': "(case None :: jsstring option of None \<Rightarrow> [] | Some d \<Rightarrow> trim d) = []"
    by simp
  have wrong: "js ''wrong'' \<noteq> demo_token"
    by (simp add: js_def demo_token_def)
  show ?thesis
    using blank wrong
      verifyDomainMock_MissingDomain [OF h, of asciiLower demo_token "demo_uid 3" "demo_now 5" demo_store "js ''wrong''"]
      verifyDomainMock_MissingDomain [OF h', of asciiLower demo_token "demo_uid 3" "demo_now 5" demo_store demo_token]
    by simp
qed


text \<open>
  C4: a call of \<open>verifyDomainMock\<close> whose trimmed domain name is not empty and whose
  token differs from the expected token fails with the InvalidToken error, status 400,
  for every such name: also for names with the sentinel suffix and for names of verified
  domains, since neither the name nor the store is looked at before the token.
\<close>

theorem verifyDomainMock_InvalidToken:
  assumes "trim d \<noteq> []" and "token \<noteq> DOMAIN_VERIFY_TOKEN"
  shows "verifyDomainMock toLowerCase DOMAIN_VERIFY_TOKEN uid now records (Some d) token
           = (Inl InvalidToken, records)
         \<and> status InvalidToken = 400"
  using assms by (simp add: verifyDomainMock_def InvalidToken_def)

theorem verifyDomainMock_InvalidToken_witness:
  "trim (js ''example.com'') \<noteq> [] \<and> trim (js ''host.invalid'') \<noteq> [] \<and> js ''nope'' \<noteq> demo_token
   \<and> verifyDomainMock asciiLower demo_token (demo_uid 3) (demo_now 5) demo_store
        (Some (js ''example.com'')) (js ''nope'') = (Inl InvalidToken, demo_store)
   \<and> verifyDomainMock asciiLower demo_token (demo_uid 3) (demo_now 5) demo_store
        (Some (js ''host.invalid'')) (js ''nope'') = (Inl InvalidToken, demo_store)
   \<and> status InvalidToken = 400"
proof -
  have verified_name: "trim (js ''example.com'') \<noteq> []"
    by (simp add: string_eval)
  have sentinel_name: "trim (js ''host.invalid'') \<noteq> []"
    by (simp add: string_eval)
  have wrong: "js ''nope'' \<noteq> demo_token"
    by (simp add: js_def demo_token_def)
  show ?thesis
    using verified_name sentinel_name wrong
      verifyDomainMock_InvalidToken [OF verified_name wrong, of asciiLower "demo_uid 3" "demo_now 5" demo_store]
      verifyDomainMock_InvalidToken [OF sentinel_name wrong, of asciiLower "demo_uid 3" "demo_now 5" demo_store]
    by simp
qed


text \<open>
  C5: a call of \<open>verifyDomainMock\<close> with the expected token and a trimmed, non-empty
  name that ends in \<open>.invalid\<close> fails with the DnsVerificationFailed error, status 422.
\<close>

theorem verifyDomainMock_DnsVerificationFailed:
  assumes "trim d \<noteq> []" and "endsWith (trim d) (js ''.invalid'')"
  shows "verifyDomainMock toLowerCase DOMAIN_VERIFY_TOKEN uid now records (Some d)
           DOMAIN_VERIFY_TOKEN = (Inl DnsVerificationFailed, records)
         \<and> status DnsVerificationFailed = 422"
  using assms by (simp add: verifyDomainMock_def DnsVerificationFailed_def)

theorem verifyDomainMock_DnsVerificationFailed_witness:
  "trim (js '' Host.invalid '') \<noteq> [] \<and> endsWith (trim (js '' Host.invalid '')) (js ''.invalid'')
   \<and> verifyDomainMock asciiLower demo_token (demo_uid 3) (demo_now 5) demo_store
        (Some (js '' Host.invalid '')) demo_token = (Inl DnsVerificationFailed, demo_store)
   \<and> status DnsVerificationFailed = 422"
proof -
  have nonempty: "trim (js '' Host.invalid '') \<noteq> []"
    by (simp add: string_eval)
  have sentinel: "endsWith (trim (js '' Host.invalid '')) (js ''.invalid'')"
    by (simp add: string_eval)
  show ?thesis
    using nonempty sentinel
      verifyDomainMock_DnsVerificationFailed [OF nonempty sentinel, of asciiLower demo_token "demo_uid 3" "demo_now 5" demo_store]
    by simp
qed


text \<open>
  C6: a call of \<open>verifyDomainMock\<close> with the expected token and a trimmed, non-empty
  name without the sentinel suffix fails with the AlreadyVerified error, status 409, when
  \<open>findDomainByName\<close> finds a record for the name and that record is verified.
\<close>

theorem verifyDomainMock_AlreadyVerified:
  assumes "trim d \<noteq> []" and "\<not> endsWith (trim d) (js ''.invalid'')"
    and "findDomainByName toLowerCase records (trim d) = Some existing"
    and "isVerified existing"
  shows "verifyDomainMock toLowerCase DOMAIN_VERIFY_TOKEN uid now records (Some d)
           DOMAIN_VERIFY_TOKEN = (Inl AlreadyVerified, records)
         \<and> status AlreadyVerified = 409"
  using assms by (simp add: verifyDomainMock_def AlreadyVerified_def)

theorem verifyDomainMock_AlreadyVerified_witness:
  "trim (js '' Example.COM'') \<noteq> [] \<and> \<not> endsWith (trim (js '' Example.COM'')) (js ''.invalid'')
   \<and> findDomainByName asciiLower demo_store (trim (js '' Example.COM'')) = Some (demo_store ! 0)
   \<and> isVerified (demo_store ! 0)
   \<and> verifyDomainMock asciiLower demo_token (demo_uid 3) (demo_now 5) demo_store
        (Some (js '' Example.COM'')) demo_token = (Inl AlreadyVerified, demo_store)
   \<and> status AlreadyVerified = 409"
proof -
  have nonempty: "trim (js '' Example.COM'') \<noteq> []"
    by (simp add: string_eval)
  have plain: "\<not> endsWith (trim (js '' Example.COM'')) (js ''.invalid'')"
    by (simp add: string_eval)
  have found: "findDomainByName asciiLower demo_store (trim (js '' Example.COM'')) = Some (demo_store ! 0)"
    by (simp add: findDomainByName_def demo_store_eq string_eval)
  have verified: "isVerified (demo_store ! 0)"
    by (simp add: demo_store_eq)
  show ?thesis
    using nonempty plain found verified
      verifyDomainMock_AlreadyVerified [OF nonempty plain found verified, of demo_token "demo_uid 3" "demo_now 5"]
    by simp
qed


section \<open>Renaming\<close>

text \<open>
  C7: \<open>updateDomainRecord\<close> on the identifier of a stored record, with a \<open>domain_name\<close>
  string (the current name included), sets the record's \<open>isVerified\<close> to false, clears
  its \<open>verified_at\<close> and stores the name, changing nothing else in the store; it returns
  \<open>null\<close>, and leaves the store alone, exactly when no record has the identifier. The
  record of an identifier is the first one carrying it, the only one when identifiers are
  distinct.
\<close>

theorem updateDomainRecord_resets_verification:
  "(i < length records \<and> (\<forall>j<i. id' (records ! j) \<noteq> id' (records ! i)) \<longrightarrow>
      updateDomainRecord records (id' (records ! i)) (Some name)
        = (Some ((records ! i)\<lparr> domain_name := name, isVerified := False, verified_at := None \<rparr>),
           records[i := (records ! i)\<lparr> domain_name := name, isVerified := False,
                                       verified_at := None \<rparr>]))
   \<and> (fst (updateDomainRecord records domainId updates) = None
        \<longleftrightarrow> (\<forall>r\<in>set records. id' r \<noteq> domainId))
   \<and> ((\<forall>r\<in>set records. id' r \<noteq> domainId)
        \<longrightarrow> snd (updateDomainRecord records domainId updates) = records)"
proof (intro conjI impI)
  assume a: "i < length records \<and> (\<forall>j<i. id' (records ! j) \<noteq> id' (records ! i))"
  let ?P = "\<lambda>domain. id' domain = id' (records ! i)"
  from a have found: "find ?P records = Some (records ! i)"
    by (intro find_first) auto
  from a have "mutateFound ?P
      (\<lambda>r. r\<lparr> domain_name := name, isVerified := False, verified_at := None \<rparr>) records
      = records[i := (records ! i)\<lparr> domain_name := name, isVerified := False, verified_at := None \<rparr>]"
    by (intro mutateFound_first) auto
  with found show "updateDomainRecord records (id' (records ! i)) (Some name)
        = (Some ((records ! i)\<lparr> domain_name := name, isVerified := False, verified_at := None \<rparr>),
           records[i := (records ! i)\<lparr> domain_name := name, isVerified := False,
                                       verified_at := None \<rparr>])"
    by (simp add: updateDomainRecord_def findDomainById_def)
next
  show "fst (updateDomainRecord records domainId updates) = None
        \<longleftrightarrow> (\<forall>r\<in>set records. id' r \<noteq> domainId)"
  proof (cases "find (\<lambda>domain. id' domain = domainId) records")
    case None
    then have "\<forall>r\<in>set records. id' r \<noteq> domainId"
      by (auto simp: find_None_iff)
    with None show ?thesis
      by (simp add: updateDomainRecord_def findDomainById_def)
  next
    case (Some existing)
    then have "existing \<in> set records \<and> id' existing = domainId"
      by (auto simp: find_Some_iff)
    with Some show ?thesis
      by (auto simp: updateDomainRecord_def findDomainById_def split: option.splits)
  qed
next
  assume "\<forall>r\<in>set records. id' r \<noteq> domainId"
  then have "find (\<lambda>domain. id' domain = domainId) records = None"
    by (simp add: find_None_iff)
  then show "snd (updateDomainRecord records domainId updates) = records"
    by (simp add: updateDomainRecord_def findDomainById_def)
qed

theorem updateDomainRecord_resets_verification_witness:
  "(0::nat) < length demo_store
   \<and> domain_name (demo_store ! 0) = js ''example.com'' \<and> isVerified (demo_store ! 0)
   \<and> updateDomainRecord demo_store (id' (demo_store ! 0)) (Some (js ''example.com''))
        = (Some ((demo_store ! 0)\<lparr> domain_name := js ''example.com'', isVerified := False,
                                  verified_at := None \<rparr>),
           demo_store[0 := (demo_store ! 0)\<lparr> domain_name := js ''example.com'',
                                             isVerified := False, verified_at := None \<rparr>])
   \<and> js ''dom_7'' \<notin> id' ` set demo_store
   \<and> updateDomainRecord demo_store (js ''dom_7'') (Some (js ''example.com'')) = (None, demo_store)"
proof -
  have ids: "\<forall>r\<in>set demo_store. id' r \<noteq> js ''dom_7''"
    by (simp add: demo_store_eq js_def)
  have rec0: "domain_name (demo_store ! 0) = js ''example.com''" "isVerified (demo_store ! 0)"
    "0 < length demo_store"
    by (simp_all add: demo_store_eq)
  show ?thesis
    using ids rec0
      updateDomainRecord_resets_verification
        [of 0 demo_store "js ''example.com''" "js ''dom_7''" "Some (js ''example.com'')"]
    by (auto simp: prod_eq_iff)
qed


section \<open>Names are not unique\<close>

text \<open>
  C8: uniqueness of names is not an invariant of the store. The names of the initial
  store are pairwise different after lower-casing and trimming. \<open>upsertDomain\<close> of a
  record with a new identifier and the name \<open>example.com\<close> puts a second record of that
  name in front of the first, and renaming the third record to \<open>test.dev\<close> with
  \<open>updateDomainRecord\<close> leaves two different records named \<open>test.dev\<close>; in both stores the
  two names are equal after lower-casing and trimming, whatever the lower-casing is.
\<close>

theorem name_uniqueness_not_invariant:
  "distinct (map (\<lambda>r. trim (asciiLower (domain_name r))) demo_store)
   \<and> upsertDomain demo_store twin = twin # demo_store
   \<and> upsertDomain demo_store twin ! 0 \<noteq> upsertDomain demo_store twin ! 1
   \<and> trim (toLowerCase (domain_name (upsertDomain demo_store twin ! 0)))
       = trim (toLowerCase (domain_name (upsertDomain demo_store twin ! 1)))
   \<and> length (snd (updateDomainRecord demo_store (js ''dom_2'') (Some (js ''test.dev'')))) = 3
   \<and> snd (updateDomainRecord demo_store (js ''dom_2'') (Some (js ''test.dev''))) ! 1
       \<noteq> snd (updateDomainRecord demo_store (js ''dom_2'') (Some (js ''test.dev''))) ! 2
   \<and> trim (toLowerCase (domain_name
         (snd (updateDomainRecord demo_store (js ''dom_2'') (Some (js ''test.dev''))) ! 1)))
       = trim (toLowerCase (domain_name
         (snd (updateDomainRecord demo_store (js ''dom_2'') (Some (js ''test.dev''))) ! 2)))"
proof -
  have unique: "distinct (map (\<lambda>r. trim (asciiLower (domain_name r))) demo_store)"
    by (simp add: demo_store_eq string_eval)
  have "id' twin \<notin> id' ` set demo_store"
    by (simp add: twin_def createDomainRecord_eq demo_store_eq js_def)
  then have upsert: "upsertDomain demo_store twin = twin # demo_store"
    by (rule upsertDomain_fresh)
  have rename: "snd (updateDomainRecord demo_store (js ''dom_2'') (Some (js ''test.dev'')))
      = demo_store[2 := (demo_store ! 2)\<lparr> domain_name := js ''test.dev'' \<rparr>]"
    by (simp add: updateDomainRecord_def findDomainById_def demo_store_eq js_def)
  have twins: "twin \<noteq> demo_store ! 0" "domain_name twin = domain_name (demo_store ! 0)"
    by (simp_all add: twin_def createDomainRecord_eq demo_store_eq js_def)
  have renamed: "(demo_store ! 2)\<lparr> domain_name := js ''test.dev'' \<rparr> \<noteq> demo_store ! 1"
    "domain_name (demo_store ! 1) = js ''test.dev''" "length demo_store = 3"
    by (simp_all add: demo_store_eq js_def)
  show ?thesis
    unfolding upsert rename using unique twins renamed by simp
qed


section \<open>Errors leave the store unchanged\<close>

text \<open>
  C9: when \<open>verifyDomainMock\<close> throws, the error is one of MissingDomain, InvalidToken,
  DnsVerificationFailed and AlreadyVerified, and the store is as it was before the call.
\<close>

theorem verifyDomainMock_error_leaves_store:
  assumes "fst (verifyDomainMock toLowerCase DOMAIN_VERIFY_TOKEN uid now records domain token) = Inl e"
  shows "snd (verifyDomainMock toLowerCase DOMAIN_VERIFY_TOKEN uid now records domain token) = records
         \<and> e \<in> {MissingDomain, InvalidToken, DnsVerificationFailed, AlreadyVerified}"
  using assms
  by (auto simp: verifyDomainMock_def Let_def split: if_splits option.splits prod.splits)

theorem verifyDomainMock_error_leaves_store_witness:
  "fst (verifyDomainMock asciiLower demo_token (demo_uid 3) (demo_now 5) demo_store
          (Some (js ''example.com'')) demo_token) = Inl AlreadyVerified
   \<and> snd (verifyDomainMock asciiLower demo_token (demo_uid 3) (demo_now 5) demo_store
          (Some (js ''example.com'')) demo_token) = demo_store"
proof -
  have thrown: "fst (verifyDomainMock asciiLower demo_token (demo_uid 3) (demo_now 5) demo_store
          (Some (js ''example.com'')) demo_token) = Inl AlreadyVerified"
    by (simp add: verifyDomainMock_def findDomainByName_def demo_store_eq string_eval)
  show ?thesis
    using thrown verifyDomainMock_error_leaves_store [OF thrown] by simp
qed


section \<open>Verifying a known name\<close>



end
